theory Spec2Isabelle
  imports Complex_Main
begin

section \<open>JavaScript values used by the components\<close>

text \<open>
  A JavaScript \<open>number\<close> is modelled as an exact rational or one of the three
  non-finite values. Rounding to binary64 and the negative zero are not modelled: the
  values the widgets produce (integers, multiples of 0.25) and their halves are exact
  in binary64.
\<close>

datatype number = Finite rat | PosInfinity | NegInfinity | NaN

text \<open>The operator \<open>/\<close> on numbers (IEEE 754 division, without rounding).\<close>

fun num_div :: "number \<Rightarrow> number \<Rightarrow> number" where
  "num_div NaN _ = NaN"
| "num_div _ NaN = NaN"
| "num_div (Finite a) (Finite b) =
     (if b = 0 then (if a = 0 then NaN else if 0 < a then PosInfinity else NegInfinity)
      else Finite (a / b))"
| "num_div (Finite a) PosInfinity = Finite 0"
| "num_div (Finite a) NegInfinity = Finite 0"
| "num_div PosInfinity (Finite b) = (if 0 \<le> b then PosInfinity else NegInfinity)"
| "num_div NegInfinity (Finite b) = (if 0 \<le> b then NegInfinity else PosInfinity)"
| "num_div PosInfinity PosInfinity = NaN"
| "num_div PosInfinity NegInfinity = NaN"
| "num_div NegInfinity PosInfinity = NaN"
| "num_div NegInfinity NegInfinity = NaN"

definition digit_char :: "nat \<Rightarrow> char" where
  "digit_char d = ''0123456789'' ! d"

fun show_nat :: "nat \<Rightarrow> string" where
  "show_nat n = (if n < 10 then [digit_char n] else show_nat (n div 10) @ [digit_char (n mod 10)])"

declare show_nat.simps [simp del]

text \<open>
  The digits after the decimal point of a fraction \<open>0 \<le> r < 1\<close>, at most \<open>k\<close> of them
  (\<open>Number.prototype.toString\<close> prints at most 17 significant digits).
\<close>

fun frac_digits :: "nat \<Rightarrow> rat \<Rightarrow> string" where
  "frac_digits 0 r = []"
| "frac_digits (Suc k) r =
     (if r = 0 then []
      else digit_char (nat \<lfloor>r * 10\<rfloor>) # frac_digits k (r * 10 - of_int \<lfloor>r * 10\<rfloor>))"

definition unsigned_toString :: "rat \<Rightarrow> string" where
  "unsigned_toString q =
     show_nat (nat \<lfloor>q\<rfloor>) @ (if frac q = 0 then [] else ''.'' @ frac_digits 17 (frac q))"

text \<open>
  \<open>Number.prototype.toString()\<close> in decimal notation: the digits of the whole part
  and, for a fraction, a point and the digits after it. This is what JavaScript prints
  for a number below \<open>1e21\<close> whose decimal expansion is finite and short, as every
  number the claims convert is; the exponent notation (from \<open>1e21\<close> on, below
  \<open>1e-6\<close>) and the shortest round-trip digits of other fractions are not modelled.
\<close>

fun number_toString :: "number \<Rightarrow> string" where
  "number_toString NaN = ''NaN''"
| "number_toString PosInfinity = ''Infinity''"
| "number_toString NegInfinity = ''-Infinity''"
| "number_toString (Finite q) =
     (if q < 0 then ''-'' @ unsigned_toString (- q) else unsigned_toString q)"

definition boolean_toString :: "bool \<Rightarrow> string" where
  "boolean_toString b = (if b then ''true'' else ''false'')"

text \<open>
  A \<open>File\<close> is an object: two files with the same content are still two files, so
  the model gives each one an identity. Text is kept as UTF-8 bytes.
\<close>

record File =
  file_id :: nat
  file_name :: string
  file_type :: string
  file_data :: string

text \<open>Truthiness of the two kinds of value the guards test.\<close>

definition truthy_file :: "File option \<Rightarrow> bool" where
  "truthy_file f = (case f of None \<Rightarrow> False | Some _ \<Rightarrow> True)"

definition truthy_string :: "string \<Rightarrow> bool" where
  "truthy_string t = (t \<noteq> [])"

section \<open>Data model (types/index.ts)\<close>

record SubtitleSettings =
  fontFamilyJa :: string
  fontFamilyEn :: string
  fontSize :: number
  color :: string
  outlineColor :: string
  outlineSize :: number
  bottomMargin :: number
  enableFade :: bool

record VideoGeneratorState =
  audioFile :: "File option"
  backgroundImage :: "File option"
  lyrics :: string
  settings :: SubtitleSettings

text \<open>\<open>Partial<SubtitleSettings>\<close>: every key may be missing (\<open>None\<close>).\<close>

record PartialSettings =
  p_fontFamilyJa :: "string option"
  p_fontFamilyEn :: "string option"
  p_fontSize :: "number option"
  p_color :: "string option"
  p_outlineColor :: "string option"
  p_outlineSize :: "number option"
  p_bottomMargin :: "number option"
  p_enableFade :: "bool option"

datatype ActionType =
    SET_AUDIO_FILE "File option"
  | SET_BACKGROUND_IMAGE "File option"
  | SET_LYRICS string
  | UPDATE_SETTINGS PartialSettings

section \<open>The store (VideoGenerator.tsx)\<close>

definition initialState :: VideoGeneratorState where
  "initialState =
     \<lparr> audioFile = None,
       backgroundImage = None,
       lyrics = '''',
       settings =
         \<lparr> fontFamilyJa = ''Noto Sans JP'',
           fontFamilyEn = ''Roboto'',
           fontSize = Finite 32,
           color = ''#ffffff'',
           outlineColor = ''#000000'',
           outlineSize = Finite 0,
           bottomMargin = Finite 50,
           enableFade = True \<rparr> \<rparr>"

text \<open>One key of the object spread \<open>{ ...a, ...b }\<close>: the key of \<open>b\<close> wins when present.\<close>

definition spread_key :: "'a \<Rightarrow> 'a option \<Rightarrow> 'a" where
  "spread_key old new = (case new of None \<Rightarrow> old | Some v \<Rightarrow> v)"

definition spread_settings :: "SubtitleSettings \<Rightarrow> PartialSettings \<Rightarrow> SubtitleSettings" where
  "spread_settings st p =
     \<lparr> fontFamilyJa = spread_key (fontFamilyJa st) (p_fontFamilyJa p),
       fontFamilyEn = spread_key (fontFamilyEn st) (p_fontFamilyEn p),
       fontSize = spread_key (fontSize st) (p_fontSize p),
       color = spread_key (color st) (p_color p),
       outlineColor = spread_key (outlineColor st) (p_outlineColor p),
       outlineSize = spread_key (outlineSize st) (p_outlineSize p),
       bottomMargin = spread_key (bottomMargin st) (p_bottomMargin p),
       enableFade = spread_key (enableFade st) (p_enableFade p) \<rparr>"

fun reducer :: "VideoGeneratorState \<Rightarrow> ActionType \<Rightarrow> VideoGeneratorState" where
  "reducer state (SET_AUDIO_FILE payload) = state\<lparr>audioFile := payload\<rparr>"
| "reducer state (SET_BACKGROUND_IMAGE payload) = state\<lparr>backgroundImage := payload\<rparr>"
| "reducer state (SET_LYRICS payload) = state\<lparr>lyrics := payload\<rparr>"
| "reducer state (UPDATE_SETTINGS payload) =
     state\<lparr>settings := spread_settings (settings state) payload\<rparr>"

definition empty_patch :: PartialSettings where
  "empty_patch =
     \<lparr> p_fontFamilyJa = None, p_fontFamilyEn = None, p_fontSize = None, p_color = None,
       p_outlineColor = None, p_outlineSize = None, p_bottomMargin = None,
       p_enableFade = None \<rparr>"

text \<open>
  In the words of the specification: the value given by the last patch of a sequence
  that names a field, if any patch names it.
\<close>

fun last_named :: "('p \<Rightarrow> 'a option) \<Rightarrow> 'p list \<Rightarrow> 'a option" where
  "last_named key [] = None"
| "last_named key (p # ps) =
     (case last_named key ps of Some v \<Rightarrow> Some v | None \<Rightarrow> key p)"

section \<open>The render request (handleVideoGenerate)\<close>

datatype FormDataEntryValue = FileEntry File | StringEntry string

type_synonym FormData = "(string \<times> FormDataEntryValue) list"

definition formData_append :: "FormData \<Rightarrow> string \<Rightarrow> FormDataEntryValue \<Rightarrow> FormData" where
  "formData_append formData name v = formData @ [(name, v)]"

text \<open>
  \<open>FormData.append\<close> takes a \<open>File\<close> as it is; any other value, \<open>null\<close> too, is
  converted to a string.
\<close>

definition file_or_null :: "File option \<Rightarrow> FormDataEntryValue" where
  "file_or_null f = (case f of None \<Rightarrow> StringEntry ''null'' | Some file \<Rightarrow> FileEntry file)"

text \<open>
  What the handler can read of the backend's answer: the status code, the body, and
  \<open>mime_type\<close>, the type that \<open>response.blob()\<close> gives its blob. That type is the
  browser's reading of the declared \<open>Content-Type\<close>, not the header as it was sent: the
  MIME type parsed and written out again, so in lower case (a declared \<open>Video/MP4\<close> is
  read as \<open>video/mp4\<close>), and the empty string when the header is missing or does not
  parse. The handler sees the declared type only through it.
\<close>

record Response =
  status :: nat
  body :: string
  mime_type :: string

record Blob =
  blob_type :: string
  blob_data :: string

text \<open>\<open>response.ok\<close>: the status is in the range 200-299.\<close>

definition ok :: "Response \<Rightarrow> bool" where
  "ok response = (200 \<le> status response \<and> status response \<le> 299)"

definition response_text :: "Response \<Rightarrow> string" where
  "response_text response = body response"

definition response_blob :: "Response \<Rightarrow> Blob" where
  "response_blob response =
     \<lparr> blob_type = mime_type response, blob_data = body response \<rparr>"

text \<open>A thrown value: an \<open>Error\<close> with its message, or anything else.\<close>

datatype thrown = Error string | NotAnError

datatype fetch_result = Rejected thrown | Resolved Response

text \<open>
  What the handler does to the world, in order. The download
  (\<open>createObjectURL\<close>, an invisible anchor with \<open>href\<close> and \<open>download\<close>, \<open>click\<close>,
  \<open>revokeObjectURL\<close>, removal of the anchor) is kept step by step.
\<close>

datatype effect =
    Alert string
  | Dispatch ActionType
  | Fetch string string FormData
  | ConsoleWarn string
  | ConsoleError string thrown
  | CreateObjectURL Blob
  | AppendAnchor Blob string
  | ClickAnchor Blob string
  | RevokeObjectURL Blob
  | RemoveAnchor Blob string

text \<open>The four handlers that write to the store: each dispatches one action.\<close>

definition handleAudioUpload :: "File option \<Rightarrow> effect list" where
  "handleAudioUpload file = [Dispatch (SET_AUDIO_FILE file)]"

definition handleBackgroundUpload :: "File option \<Rightarrow> effect list" where
  "handleBackgroundUpload file = [Dispatch (SET_BACKGROUND_IMAGE file)]"

definition handleLyricsChange :: "string \<Rightarrow> effect list" where
  "handleLyricsChange text = [Dispatch (SET_LYRICS text)]"

definition updateSettings :: "PartialSettings \<Rightarrow> effect list" where
  "updateSettings patch = [Dispatch (UPDATE_SETTINGS patch)]"

text \<open>The message literals of the component, as UTF-8 bytes.\<close>

definition msg_missing :: string where
  "msg_missing =
   [CHR 0xE5, CHR 0xBF, CHR 0x85, CHR 0xE8, CHR 0xA6, CHR 0x81, CHR 0xE3, CHR 0x81, CHR 0xAA,
    CHR 0xE3, CHR 0x83, CHR 0x95, CHR 0xE3, CHR 0x82, CHR 0xA1, CHR 0xE3, CHR 0x82, CHR 0xA4,
    CHR 0xE3, CHR 0x83, CHR 0xAB, CHR 0xE3, CHR 0x81, CHR 0xBE, CHR 0xE3, CHR 0x81, CHR 0x9F,
    CHR 0xE3, CHR 0x81, CHR 0xAF, CHR 0xE6, CHR 0xAD, CHR 0x8C, CHR 0xE8, CHR 0xA9, CHR 0x9E,
    CHR 0xE3, CHR 0x81, CHR 0x8C, CHR 0xE8, CHR 0xA8, CHR 0xAD, CHR 0xE5, CHR 0xAE, CHR 0x9A,
    CHR 0xE3, CHR 0x81, CHR 0x95, CHR 0xE3, CHR 0x82, CHR 0x8C, CHR 0xE3, CHR 0x81, CHR 0xA6,
    CHR 0xE3, CHR 0x81, CHR 0x84, CHR 0xE3, CHR 0x81, CHR 0xBE, CHR 0xE3, CHR 0x81, CHR 0x9B,
    CHR 0xE3, CHR 0x82, CHR 0x93, CHR 0xE3, CHR 0x80, CHR 0x82]"

definition msg_failed :: string where
  "msg_failed =
   [CHR 0xE5, CHR 0x8B, CHR 0x95, CHR 0xE7, CHR 0x94, CHR 0xBB, CHR 0xE7, CHR 0x94, CHR 0x9F,
    CHR 0xE6, CHR 0x88, CHR 0x90, CHR 0xE3, CHR 0x81, CHR 0xAB, CHR 0xE5, CHR 0xA4, CHR 0xB1,
    CHR 0xE6, CHR 0x95, CHR 0x97, CHR 0xE3, CHR 0x81, CHR 0x97, CHR 0xE3, CHR 0x81, CHR 0xBE,
    CHR 0xE3, CHR 0x81, CHR 0x97, CHR 0xE3, CHR 0x81, CHR 0x9F, CHR 0x3A, CHR 0x20]"

definition msg_error :: string where
  "msg_error =
   [CHR 0xE3, CHR 0x82, CHR 0xA8, CHR 0xE3, CHR 0x83, CHR 0xA9, CHR 0xE3, CHR 0x83, CHR 0xBC,
    CHR 0xE3, CHR 0x81, CHR 0x8C, CHR 0xE7, CHR 0x99, CHR 0xBA, CHR 0xE7, CHR 0x94, CHR 0x9F,
    CHR 0xE3, CHR 0x81, CHR 0x97, CHR 0xE3, CHR 0x81, CHR 0xBE, CHR 0xE3, CHR 0x81, CHR 0x97,
    CHR 0xE3, CHR 0x81, CHR 0x9F, CHR 0x3A, CHR 0x20]"

definition msg_unknown :: string where
  "msg_unknown =
   [CHR 0xE4, CHR 0xB8, CHR 0x8D, CHR 0xE6, CHR 0x98, CHR 0x8E, CHR 0xE3, CHR 0x81, CHR 0xAA,
    CHR 0xE3, CHR 0x82, CHR 0xA8, CHR 0xE3, CHR 0x83, CHR 0xA9, CHR 0xE3, CHR 0x83, CHR 0xBC,
    CHR 0xE3, CHR 0x81, CHR 0x8C, CHR 0xE7, CHR 0x99, CHR 0xBA, CHR 0xE7, CHR 0x94, CHR 0x9F,
    CHR 0xE3, CHR 0x81, CHR 0x97, CHR 0xE3, CHR 0x81, CHR 0xBE, CHR 0xE3, CHR 0x81, CHR 0x97,
    CHR 0xE3, CHR 0x81, CHR 0x9F, CHR 0xE3, CHR 0x80, CHR 0x82]"

definition msg_console :: string where
  "msg_console =
   [CHR 0xE5, CHR 0x8B, CHR 0x95, CHR 0xE7, CHR 0x94, CHR 0xBB, CHR 0xE7, CHR 0x94, CHR 0x9F,
    CHR 0xE6, CHR 0x88, CHR 0x90, CHR 0xE3, CHR 0x82, CHR 0xA8, CHR 0xE3, CHR 0x83, CHR 0xA9,
    CHR 0xE3, CHR 0x83, CHR 0xBC, CHR 0x3A]"

definition backendURL :: string where
  "backendURL = ''http://localhost:8000''"

text \<open>Lines 68-79: the form, one \<open>append\<close> after the other.\<close>

definition build_formData :: "VideoGeneratorState \<Rightarrow> FormData" where
  "build_formData state =
     (let formData = [];
          formData = formData_append formData ''music_file'' (file_or_null (audioFile state));
          formData = formData_append formData ''image_file'' (file_or_null (backgroundImage state));
          formData = formData_append formData ''lyrics'' (StringEntry (lyrics state));
          formData = formData_append formData ''font_size''
                       (StringEntry (number_toString (fontSize (settings state))));
          formData = formData_append formData ''font_color'' (StringEntry (color (settings state)));
          formData = formData_append formData ''font_name_ja''
                       (StringEntry (fontFamilyJa (settings state)));
          formData = formData_append formData ''font_name_en''
                       (StringEntry (fontFamilyEn (settings state)));
          formData = formData_append formData ''outline_color''
                       (StringEntry (outlineColor (settings state)));
          formData = formData_append formData ''outline_size''
                       (StringEntry (number_toString (outlineSize (settings state))));
          formData = formData_append formData ''bottom_margin''
                       (StringEntry (number_toString (bottomMargin (settings state))));
          formData = formData_append formData ''enable_fade''
                       (StringEntry (boolean_toString (enableFade (settings state))))
      in formData)"

text \<open>The \<open>catch\<close> block (lines 109-116).\<close>

definition catch_block :: "thrown \<Rightarrow> effect list" where
  "catch_block error =
     ConsoleError msg_console error #
     (case error of
        Error message \<Rightarrow> [Alert (msg_error @ message)]
      | NotAnError \<Rightarrow> [Alert msg_unknown])"

text \<open>Lines 94-107: the blob of a successful response is handed to the browser.\<close>

definition download_blob :: "Blob \<Rightarrow> effect list" where
  "download_blob videoBlob =
     (if blob_type videoBlob \<noteq> ''video/mp4''
      then [ConsoleWarn (''Expected video/mp4 but received '' @ blob_type videoBlob)]
      else []) @
     [CreateObjectURL videoBlob,
      AppendAnchor videoBlob ''lyrics_video.mp4'',
      ClickAnchor videoBlob ''lyrics_video.mp4'',
      RevokeObjectURL videoBlob,
      RemoveAnchor videoBlob ''lyrics_video.mp4'']"

text \<open>
  The handler, given what \<open>fetch\<close> will answer if it is called. The body of the
  response is taken to be readable in full.
\<close>

definition handleVideoGenerate :: "VideoGeneratorState \<Rightarrow> fetch_result \<Rightarrow> effect list" where
  "handleVideoGenerate state result =
     (if \<not> truthy_file (audioFile state) \<or> \<not> truthy_file (backgroundImage state)
         \<or> \<not> truthy_string (lyrics state)
      then [Alert msg_missing]
      else
        Fetch ''POST'' (backendURL @ ''/create_video'') (build_formData state) #
        (case result of
           Rejected error \<Rightarrow> catch_block error
         | Resolved response \<Rightarrow>
             if \<not> ok response
             then catch_block
                    (Error (msg_failed @ number_toString (Finite (of_nat (status response)))
                              @ '' '' @ response_text response))
             else download_blob (response_blob response)))"

text \<open>Line 152: the \<open>disabled\<close> attribute of the submit button.\<close>

definition button_disabled :: "VideoGeneratorState \<Rightarrow> bool" where
  "button_disabled state =
     (\<not> truthy_file (audioFile state) \<or> \<not> truthy_file (backgroundImage state)
      \<or> \<not> truthy_string (lyrics state))"

text \<open>The store after the effects of a handler: only a dispatch changes it.\<close>

fun store_after :: "VideoGeneratorState \<Rightarrow> effect list \<Rightarrow> VideoGeneratorState" where
  "store_after state [] = state"
| "store_after state (Dispatch action # es) = store_after (reducer state action) es"
| "store_after state (_ # es) = store_after state es"

text \<open>In the words of the specification: the submit-eligibility predicate.\<close>

definition submit_eligible :: "VideoGeneratorState \<Rightarrow> bool" where
  "submit_eligible state =
     (audioFile state \<noteq> None \<and> backgroundImage state \<noteq> None \<and> lyrics state \<noteq> [])"

fun is_fetch :: "effect \<Rightarrow> bool" where
  "is_fetch (Fetch _ _ _) = True"
| "is_fetch _ = False"

fun is_download :: "effect \<Rightarrow> bool" where
  "is_download (CreateObjectURL _) = True"
| "is_download (AppendAnchor _ _) = True"
| "is_download (ClickAnchor _ _) = True"
| "is_download _ = False"

section \<open>The preview (VideoPreview)\<close>

datatype css_value = CssNumber number | CssString string

type_synonym CSSProperties = "string \<rightharpoonup> css_value"

definition subtitleStyle :: "SubtitleSettings \<Rightarrow> CSSProperties" where
  "subtitleStyle st =
     [ ''fontFamily'' \<mapsto> CssString (fontFamilyJa st),
       ''fontSize'' \<mapsto> CssString (number_toString (fontSize st) @ ''px''),
       ''color'' \<mapsto> CssString (color st),
       ''textShadow'' \<mapsto>
          CssString (''0 0 '' @ number_toString (outlineSize st) @ ''px '' @ outlineColor st),
       ''WebkitTextStroke'' \<mapsto>
          CssString (number_toString (outlineSize st) @ ''px '' @ outlineColor st),
       ''marginBottom'' \<mapsto> CssNumber (Finite 0),
       ''padding'' \<mapsto> CssNumber (Finite 0) ]"

definition englishSubtitleStyle :: "SubtitleSettings \<Rightarrow> CSSProperties" where
  "englishSubtitleStyle st =
     (subtitleStyle st)
     ( ''fontFamily'' \<mapsto> CssString (fontFamilyEn st),
       ''fontSize'' \<mapsto>
          CssString (number_toString (num_div (fontSize st) (Finite 2)) @ ''px''),
       ''marginTop'' \<mapsto> CssNumber (Finite 0),
       ''marginBottom'' \<mapsto> CssString (number_toString (bottomMargin st) @ ''px'') )"

text \<open>
  The state of a mounted preview. An object URL is a fresh name each time;
  \<open>loading\<close> holds the images created by an effect whose \<open>onload\<close> has not fired yet,
  with the file each one reads (an image that cannot be decoded stays there: the
  component sets no \<open>onerror\<close>); \<open>cleanup_url\<close> is the URL that the cleanup function
  returned by the last effect will revoke, if it returned one. Revoking a URL does not
  detach the \<open>onload\<close> of the image that reads it.
\<close>

type_synonym url = nat

record VideoPreview =
  backgroundImage_prop :: "File option"
  backgroundUrl :: "url option"
  aspectRatio :: number
  loading :: "(url \<times> File) list"
  cleanup_url :: "url option"
  object_urls :: "url list"
  next_url :: url

text \<open>Lines 15-16: the two \<open>useState\<close> calls.\<close>

definition initial_preview :: "File option \<Rightarrow> VideoPreview" where
  "initial_preview bg =
     \<lparr> backgroundImage_prop = bg,
       backgroundUrl = None,
       aspectRatio = num_div (Finite 16) (Finite 9),
       loading = [],
       cleanup_url = None,
       object_urls = [],
       next_url = 0 \<rparr>"

text \<open>Lines 20-36: the body of the effect.\<close>

definition run_effect :: "VideoPreview \<Rightarrow> VideoPreview" where
  "run_effect s =
     (case backgroundImage_prop s of
        Some file \<Rightarrow>
          (let newUrl = next_url s
           in s\<lparr> backgroundUrl := Some newUrl,
                 loading := loading s @ [(newUrl, file)],
                 cleanup_url := Some newUrl,
                 object_urls := object_urls s @ [newUrl],
                 next_url := Suc newUrl \<rparr>)
      | None \<Rightarrow>
          s\<lparr> backgroundUrl := None,
             aspectRatio := num_div (Finite 16) (Finite 9),
             cleanup_url := None \<rparr>)"

text \<open>Line 32: the cleanup of the previous effect.\<close>

definition run_cleanup :: "VideoPreview \<Rightarrow> VideoPreview" where
  "run_cleanup s =
     (case cleanup_url s of
        Some u \<Rightarrow> s\<lparr> object_urls := removeAll u (object_urls s) \<rparr>
      | None \<Rightarrow> s)"

definition mount :: "File option \<Rightarrow> VideoPreview" where
  "mount bg = run_effect (initial_preview bg)"

text \<open>
  What happens to a mounted preview: the parent renders it with a background (the
  effect runs when the dependency has changed), or an image that is loading has
  loaded (lines 26-29). The decoder \<open>dims\<close> gives the pixel width and height of the
  image in a file.
\<close>

datatype preview_event = Render "File option" | ImageLoaded url

fun step :: "(File \<Rightarrow> nat \<times> nat) \<Rightarrow> VideoPreview \<Rightarrow> preview_event \<Rightarrow> VideoPreview" where
  "step dims s (Render bg) =
     (if bg = backgroundImage_prop s then s
      else run_effect ((run_cleanup s)\<lparr> backgroundImage_prop := bg \<rparr>))"
| "step dims s (ImageLoaded u) =
     (case map_of (loading s) u of
        None \<Rightarrow> s
      | Some file \<Rightarrow>
          s\<lparr> aspectRatio :=
               num_div (Finite (of_nat (fst (dims file)))) (Finite (of_nat (snd (dims file)))),
             object_urls := removeAll u (object_urls s),
             loading := filter (\<lambda>entry. fst entry \<noteq> u) (loading s) \<rparr>)"

definition run :: "(File \<Rightarrow> nat \<times> nat) \<Rightarrow> VideoPreview \<Rightarrow> preview_event list \<Rightarrow> VideoPreview" where
  "run dims s events = foldl (step dims) s events"

text \<open>
  In the words of the amended claims. An event writes the aspect ratio when it clears a
  background that was set, or when it is the load of an image that is still loading; a
  run is quiet when none of its events does.
\<close>

fun writes :: "VideoPreview \<Rightarrow> preview_event \<Rightarrow> bool" where
  "writes s (Render bg) = (bg = None \<and> backgroundImage_prop s \<noteq> None)"
| "writes s (ImageLoaded u) = (map_of (loading s) u \<noteq> None)"

fun quiet :: "(File \<Rightarrow> nat \<times> nat) \<Rightarrow> VideoPreview \<Rightarrow> preview_event list \<Rightarrow> bool" where
  "quiet dims s [] = True"
| "quiet dims s (e # events) = (\<not> writes s e \<and> quiet dims (step dims s e) events)"


section \<open>Concrete inputs\<close>

definition demo_audio :: File where
  "demo_audio =
     \<lparr> file_id = 1, file_name = ''song.mp3'', file_type = ''audio/mpeg'', file_data = ''ID3'' \<rparr>"

definition demo_image :: File where
  "demo_image =
     \<lparr> file_id = 2, file_name = ''cover.png'', file_type = ''image/png'', file_data = ''PNG'' \<rparr>"

text \<open>The scenario of the specification: both assets, two lines of lyrics, default settings.\<close>

definition demo_state :: VideoGeneratorState where
  "demo_state =
     initialState \<lparr> audioFile := Some demo_audio, backgroundImage := Some demo_image,
                    lyrics := ''line1'' @ [CHR 0x0A] @ ''line2'' \<rparr>"

definition patch_size :: "rat \<Rightarrow> PartialSettings" where
  "patch_size n = empty_patch\<lparr>p_fontSize := Some (Finite n)\<rparr>"

text \<open>
  Three answers of the backend: an error, a payload of another type, and a video (also
  one declared as \<open>Video/MP4\<close>, which the browser reads as \<open>video/mp4\<close>).
\<close>

definition failed_response :: Response where
  "failed_response = \<lparr> status = 500, body = ''render failed'', mime_type = ''text/plain'' \<rparr>"

definition odd_response :: Response where
  "odd_response = \<lparr> status = 200, body = ''RIFF'', mime_type = ''application/octet-stream'' \<rparr>"

definition video_response :: Response where
  "video_response = \<lparr> status = 200, body = ''ftyp'', mime_type = ''video/mp4'' \<rparr>"

text \<open>Two images, 1000 by 500 and 1920 by 1080 pixels, and a decoder that knows them.\<close>

definition demo_wide :: File where
  "demo_wide =
     \<lparr> file_id = 3, file_name = ''wide.png'', file_type = ''image/png'', file_data = ''PNG'' \<rparr>"

definition demo_hd :: File where
  "demo_hd =
     \<lparr> file_id = 4, file_name = ''hd.jpg'', file_type = ''image/jpeg'', file_data = ''JFIF'' \<rparr>"

definition demo_dims :: "File \<Rightarrow> nat \<times> nat" where
  "demo_dims file = (if file_id file = 3 then (1000, 500) else (1920, 1080))"

definition odd_settings :: SubtitleSettings where
  "odd_settings = (settings initialState)\<lparr>fontSize := Finite 33\<rparr>"

section \<open>Auxiliary facts\<close>

lemma floor_rat_divide_numeral:
  "\<lfloor>numeral a / numeral b :: rat\<rfloor> = numeral a div numeral b"
  by (metis floor_divide_of_int_eq of_int_numeral)

lemma floor_rat_one_divide_numeral:
  "\<lfloor>1 / numeral b :: rat\<rfloor> = 1 div numeral b"
  by (metis floor_divide_of_int_eq of_int_numeral of_int_1)

lemma frac_digits_numeral:
  "frac_digits (numeral k) r =
     (if r = 0 then []
      else digit_char (nat \<lfloor>r * 10\<rfloor>) # frac_digits (pred_numeral k) (r * 10 - of_int \<lfloor>r * 10\<rfloor>))"
  by (simp add: numeral_eq_Suc)

lemmas toString_eval =
  unsigned_toString_def show_nat.simps digit_char_def frac_def frac_digits_numeral
  floor_rat_divide_numeral floor_rat_one_divide_numeral

lemma number_toString_of_nat: "number_toString (Finite (of_nat n)) = show_nat n"
  by (simp add: unsigned_toString_def)

lemma floor_nat_plus_half: "\<lfloor>of_nat k + 1 / 2 :: rat\<rfloor> = int k"
  by (rule floor_unique) simp_all

lemma frac_nat_plus_half: "frac (of_nat k + 1 / 2 :: rat) = 1 / 2"
  by (simp add: frac_def floor_nat_plus_half)

lemma unsigned_toString_nat_plus_half:
  "unsigned_toString (of_nat k + 1 / 2) = show_nat k @ ''.5''"
proof -
  have "frac_digits 17 (1 / 2) = ''5''"
    by (simp add: frac_digits_numeral digit_char_def)
  then show ?thesis
    by (simp only: unsigned_toString_def floor_nat_plus_half frac_nat_plus_half) simp
qed

lemma number_toString_half:
  "number_toString (num_div (Finite (of_nat n)) (Finite 2)) =
     (if even n then show_nat (n div 2) else show_nat (n div 2) @ ''.5'')"
proof (cases "even n")
  case True
  then obtain k where k: "n = 2 * k" by (auto elim: evenE)
  then show ?thesis by (simp add: unsigned_toString_def)
next
  case False
  then obtain k where k: "n = 2 * k + 1" by (auto elim: oddE)
  have q: "(of_nat n / 2 :: rat) = of_nat k + 1 / 2"
    unfolding k by (simp add: add_divide_distrib)
  have nn: "\<not> (of_nat k + 1 / 2 :: rat) < 0"
    by (simp add: not_less)
  have "num_div (Finite (of_nat n)) (Finite 2) = Finite (of_nat n / 2)"
    by simp
  then have "number_toString (num_div (Finite (of_nat n)) (Finite 2)) =
          number_toString (Finite (of_nat k + 1 / 2))"
    by (simp only: q)
  also have "\<dots> = show_nat k @ ''.5''"
    using nn by (simp only: number_toString.simps unsigned_toString_nat_plus_half if_False)
  finally show ?thesis using False k by simp
qed

lemma guard_eligible:
  "(\<not> truthy_file (audioFile s) \<or> \<not> truthy_file (backgroundImage s) \<or> \<not> truthy_string (lyrics s))
     = (\<not> submit_eligible s)"
  by (auto simp: truthy_file_def truthy_string_def submit_eligible_def split: option.splits)

lemma handleVideoGenerate_blocked:
  "\<not> submit_eligible s \<Longrightarrow> handleVideoGenerate s r = [Alert msg_missing]"
  unfolding handleVideoGenerate_def guard_eligible by simp

lemma handleVideoGenerate_sent:
  "submit_eligible s \<Longrightarrow>
   handleVideoGenerate s r =
     Fetch ''POST'' (backendURL @ ''/create_video'') (build_formData s) #
     (case r of
        Rejected error \<Rightarrow> catch_block error
      | Resolved response \<Rightarrow>
          if \<not> ok response
          then catch_block
                 (Error (msg_failed @ number_toString (Finite (of_nat (status response)))
                           @ '' '' @ response_text response))
          else download_blob (response_blob response))"
  unfolding handleVideoGenerate_def guard_eligible by simp

lemma build_formData_parts:
  "build_formData s =
     [(''music_file'', file_or_null (audioFile s)),
      (''image_file'', file_or_null (backgroundImage s)),
      (''lyrics'', StringEntry (lyrics s)),
      (''font_size'', StringEntry (number_toString (fontSize (settings s)))),
      (''font_color'', StringEntry (color (settings s))),
      (''font_name_ja'', StringEntry (fontFamilyJa (settings s))),
      (''font_name_en'', StringEntry (fontFamilyEn (settings s))),
      (''outline_color'', StringEntry (outlineColor (settings s))),
      (''outline_size'', StringEntry (number_toString (outlineSize (settings s)))),
      (''bottom_margin'', StringEntry (number_toString (bottomMargin (settings s)))),
      (''enable_fade'', StringEntry (boolean_toString (enableFade (settings s))))]"
  by (simp add: build_formData_def formData_append_def Let_def)

lemma store_after_no_dispatch:
  "\<forall>e \<in> set es. \<forall>a. e \<noteq> Dispatch a \<Longrightarrow> store_after s es = s"
proof (induction es)
  case Nil
  then show ?case by simp
next
  case (Cons e es)
  then show ?case by (cases e) auto
qed

lemma catch_block_no_dispatch: "\<forall>e \<in> set (catch_block x). \<forall>a. e \<noteq> Dispatch a"
  by (cases x) (simp_all add: catch_block_def)

lemma download_blob_no_dispatch: "\<forall>e \<in> set (download_blob b). \<forall>a. e \<noteq> Dispatch a"
  by (simp add: download_blob_def)

lemma handleVideoGenerate_no_dispatch:
  "\<forall>e \<in> set (handleVideoGenerate s r). \<forall>a. e \<noteq> Dispatch a"
proof (cases "submit_eligible s")
  case False
  then show ?thesis by (simp add: handleVideoGenerate_blocked)
next
  case True
  show ?thesis
    using catch_block_no_dispatch download_blob_no_dispatch
    by (cases r) (simp_all add: handleVideoGenerate_sent [OF True])
qed

lemma store_after_updateSettings:
  "store_after s (concat (map updateSettings ps)) =
     foldl (\<lambda>st p. reducer st (UPDATE_SETTINGS p)) s ps"
  by (induction ps arbitrary: s) (simp_all add: updateSettings_def)

lemma foldl_update_key:
  assumes "\<And>st p. f (settings (reducer st (UPDATE_SETTINGS p))) = spread_key (f (settings st)) (k p)"
  shows "f (settings (foldl (\<lambda>st p. reducer st (UPDATE_SETTINGS p)) s ps)) =
           spread_key (f (settings s)) (last_named k ps)"
proof (induction ps arbitrary: s)
  case Nil
  then show ?case by (simp add: spread_key_def)
next
  case (Cons p ps)
  have "f (settings (foldl (\<lambda>st p. reducer st (UPDATE_SETTINGS p)) s (p # ps))) =
          spread_key (f (settings (reducer s (UPDATE_SETTINGS p)))) (last_named k ps)"
    using Cons.IH [of "reducer s (UPDATE_SETTINGS p)"] by simp
  also have "\<dots> = spread_key (spread_key (f (settings s)) (k p)) (last_named k ps)"
    by (simp only: assms)
  also have "\<dots> = spread_key (f (settings s)) (last_named k (p # ps))"
    by (simp add: spread_key_def split: option.splits)
  finally show ?case .
qed

lemma merged_fontFamilyJa:
  "fontFamilyJa (settings (foldl (\<lambda>st p. reducer st (UPDATE_SETTINGS p)) s ps)) =
     spread_key (fontFamilyJa (settings s)) (last_named p_fontFamilyJa ps)"
  by (rule foldl_update_key) (simp add: spread_settings_def)

lemma merged_fontFamilyEn:
  "fontFamilyEn (settings (foldl (\<lambda>st p. reducer st (UPDATE_SETTINGS p)) s ps)) =
     spread_key (fontFamilyEn (settings s)) (last_named p_fontFamilyEn ps)"
  by (rule foldl_update_key) (simp add: spread_settings_def)

lemma merged_fontSize:
  "fontSize (settings (foldl (\<lambda>st p. reducer st (UPDATE_SETTINGS p)) s ps)) =
     spread_key (fontSize (settings s)) (last_named p_fontSize ps)"
  by (rule foldl_update_key) (simp add: spread_settings_def)

lemma merged_color:
  "color (settings (foldl (\<lambda>st p. reducer st (UPDATE_SETTINGS p)) s ps)) =
     spread_key (color (settings s)) (last_named p_color ps)"
  by (rule foldl_update_key) (simp add: spread_settings_def)

lemma merged_outlineColor:
  "outlineColor (settings (foldl (\<lambda>st p. reducer st (UPDATE_SETTINGS p)) s ps)) =
     spread_key (outlineColor (settings s)) (last_named p_outlineColor ps)"
  by (rule foldl_update_key) (simp add: spread_settings_def)

lemma merged_outlineSize:
  "outlineSize (settings (foldl (\<lambda>st p. reducer st (UPDATE_SETTINGS p)) s ps)) =
     spread_key (outlineSize (settings s)) (last_named p_outlineSize ps)"
  by (rule foldl_update_key) (simp add: spread_settings_def)

lemma merged_bottomMargin:
  "bottomMargin (settings (foldl (\<lambda>st p. reducer st (UPDATE_SETTINGS p)) s ps)) =
     spread_key (bottomMargin (settings s)) (last_named p_bottomMargin ps)"
  by (rule foldl_update_key) (simp add: spread_settings_def)

lemma merged_enableFade:
  "enableFade (settings (foldl (\<lambda>st p. reducer st (UPDATE_SETTINGS p)) s ps)) =
     spread_key (enableFade (settings s)) (last_named p_enableFade ps)"
  by (rule foldl_update_key) (simp add: spread_settings_def)

lemmas merged_keys =
  merged_fontFamilyJa merged_fontFamilyEn merged_fontSize merged_color
  merged_outlineColor merged_outlineSize merged_bottomMargin merged_enableFade

lemma empty_patch_identity: "store_after s (updateSettings empty_patch) = s"
  by (simp add: updateSettings_def empty_patch_def spread_settings_def spread_key_def)

lemma run_Nil: "run dims s [] = s"
  by (simp add: run_def)

lemma run_Cons: "run dims s (e # events) = run dims (step dims s e) events"
  by (simp add: run_def)

lemma run_append: "run dims s (pre @ post) = run dims (run dims s pre) post"
  by (simp add: run_def)

lemma mount_ratio: "aspectRatio (mount bg) = Finite (16 / 9)"
  by (cases bg) (simp_all add: mount_def run_effect_def initial_preview_def Let_def)

lemma step_clear_ratio:
  "backgroundImage_prop s \<noteq> None \<Longrightarrow> aspectRatio (step dims s (Render None)) = Finite (16 / 9)"
  by (auto simp: run_effect_def run_cleanup_def split: option.splits)

lemma step_set_ratio: "aspectRatio (step dims s (Render (Some g))) = aspectRatio s"
  by (simp add: run_effect_def run_cleanup_def Let_def split: option.splits)

lemma step_loaded_ratio:
  "map_of (loading s) u = Some f \<Longrightarrow>
   aspectRatio (step dims s (ImageLoaded u)) =
     num_div (Finite (of_nat (fst (dims f)))) (Finite (of_nat (snd (dims f))))"
  by simp

lemma step_keeps_ratio: "\<not> writes s e \<Longrightarrow> aspectRatio (step dims s e) = aspectRatio s"
proof (cases e)
  case (Render bg)
  assume "\<not> writes s e"
  with Render have "bg = backgroundImage_prop s \<or> bg \<noteq> None" by auto
  then show ?thesis
  proof
    assume "bg = backgroundImage_prop s"
    with Render show ?thesis by simp
  next
    assume "bg \<noteq> None"
    then obtain g where "bg = Some g" by auto
    with Render show ?thesis by (simp only: step_set_ratio)
  qed
next
  case (ImageLoaded u)
  assume "\<not> writes s e"
  with ImageLoaded show ?thesis by simp
qed

lemma quiet_keeps_ratio:
  "quiet dims s events \<Longrightarrow> aspectRatio (run dims s events) = aspectRatio s"
proof (induction events arbitrary: s)
  case Nil
  then show ?case by (simp add: run_Nil)
next
  case (Cons e events)
  then have w: "\<not> writes s e" and q: "quiet dims (step dims s e) events"
    by simp_all
  have "aspectRatio (run dims s (e # events)) = aspectRatio (run dims (step dims s e) events)"
    by (simp only: run_Cons)
  also have "\<dots> = aspectRatio (step dims s e)"
    using q by (rule Cons.IH)
  also have "\<dots> = aspectRatio s"
    using w by (rule step_keeps_ratio)
  finally show ?case .
qed

lemma last_write_exists:
  "quiet dims s events \<or>
   (\<exists>pre e post. events = pre @ e # post \<and> writes (run dims s pre) e \<and>
       quiet dims (step dims (run dims s pre) e) post)"
proof (induction events arbitrary: s)
  case Nil
  then show ?case by simp
next
  case (Cons e events)
  from Cons.IH [of "step dims s e"] show ?case
  proof
    assume q: "quiet dims (step dims s e) events"
    show ?thesis
    proof (cases "writes s e")
      case True
      then have "e # events = [] @ e # events \<and> writes (run dims s []) e \<and>
                 quiet dims (step dims (run dims s []) e) events"
        using q by (simp add: run_Nil)
      then show ?thesis by blast
    next
      case False
      with q show ?thesis by simp
    qed
  next
    assume "\<exists>pre e' post. events = pre @ e' # post \<and> writes (run dims (step dims s e) pre) e' \<and>
       quiet dims (step dims (run dims (step dims s e) pre) e') post"
    then obtain pre e' post where ev: "events = pre @ e' # post"
      and w: "writes (run dims (step dims s e) pre) e'"
      and q: "quiet dims (step dims (run dims (step dims s e) pre) e') post"
      by blast
    have "e # events = (e # pre) @ e' # post \<and> writes (run dims s (e # pre)) e' \<and>
          quiet dims (step dims (run dims s (e # pre)) e') post"
      using ev w q by (simp add: run_Cons)
    then show ?thesis by blast
  qed
qed









lemma englishSubtitleStyle_fontSize:
  "englishSubtitleStyle st ''fontSize'' =
     Some (CssString (number_toString (num_div (fontSize st) (Finite 2)) @ ''px''))"
  by (simp add: englishSubtitleStyle_def)

lemma englishSubtitleStyle_marginBottom:
  "englishSubtitleStyle st ''marginBottom'' =
     Some (CssString (number_toString (bottomMargin st) @ ''px''))"
  by (simp add: englishSubtitleStyle_def)

lemma subtitleStyle_marginBottom:
  "subtitleStyle st ''marginBottom'' = Some (CssNumber (Finite 0))"
  by (simp add: subtitleStyle_def)

lemma subtitleStyle_fontSize:
  "subtitleStyle st ''fontSize'' = Some (CssString (number_toString (fontSize st) @ ''px''))"
  by (simp add: subtitleStyle_def)

section \<open>The claims\<close>

text \<open>
  C1. For a submit-eligible state the handler sends exactly one request, a POST to
  \<open>/create_video\<close>, whose form has exactly the eleven parts \<open>music_file\<close>,
  \<open>image_file\<close>, \<open>lyrics\<close>, \<open>font_size\<close>, \<open>font_color\<close>, \<open>font_name_ja\<close>,
  \<open>font_name_en\<close>, \<open>outline_color\<close>, \<open>outline_size\<close>, \<open>bottom_margin\<close> and
  \<open>enable_fade\<close>, in this order, with the two files, the raw lyrics, the settings' strings,
  the numbers converted by \<open>toString\<close> (the decimal digits for a whole number) and the
  flag as \<open>true\<close> or \<open>false\<close>. With the default settings the form has \<open>font_size=32\<close>,
  \<open>font_name_ja=Noto Sans JP\<close> and \<open>enable_fade=true\<close>.
\<close>

theorem render_request_parts:
  assumes "submit_eligible s" and "audioFile s = Some a" and "backgroundImage s = Some b"
  shows "filter is_fetch (handleVideoGenerate s r) =
           [Fetch ''POST'' ''http://localhost:8000/create_video''
              [(''music_file'', FileEntry a),
               (''image_file'', FileEntry b),
               (''lyrics'', StringEntry (lyrics s)),
               (''font_size'', StringEntry (number_toString (fontSize (settings s)))),
               (''font_color'', StringEntry (color (settings s))),
               (''font_name_ja'', StringEntry (fontFamilyJa (settings s))),
               (''font_name_en'', StringEntry (fontFamilyEn (settings s))),
               (''outline_color'', StringEntry (outlineColor (settings s))),
               (''outline_size'', StringEntry (number_toString (outlineSize (settings s)))),
               (''bottom_margin'', StringEntry (number_toString (bottomMargin (settings s)))),
               (''enable_fade'', StringEntry (if enableFade (settings s) then ''true'' else ''false''))]]
         \<and> (n < 10 ^ 21 \<and> fontSize (settings s) = Finite (of_nat n) \<longrightarrow>
                map_of (build_formData s) ''font_size'' = Some (StringEntry (show_nat n)))
         \<and> (settings s = settings initialState \<longrightarrow>
                map_of (build_formData s) ''font_size'' = Some (StringEntry ''32'') \<and>
                map_of (build_formData s) ''font_name_ja'' = Some (StringEntry ''Noto Sans JP'') \<and>
                map_of (build_formData s) ''enable_fade'' = Some (StringEntry ''true''))"
proof (intro conjI impI)
  have tail: "filter is_fetch
      (case r of
        Rejected error \<Rightarrow> catch_block error
      | Resolved response \<Rightarrow>
          if \<not> ok response
          then catch_block
                 (Error (msg_failed @ number_toString (Finite (of_nat (status response)))
                           @ '' '' @ response_text response))
          else download_blob (response_blob response)) = []"
    by (simp add: catch_block_def download_blob_def split: fetch_result.splits thrown.splits)
  show "filter is_fetch (handleVideoGenerate s r) =
           [Fetch ''POST'' ''http://localhost:8000/create_video''
              [(''music_file'', FileEntry a),
               (''image_file'', FileEntry b),
               (''lyrics'', StringEntry (lyrics s)),
               (''font_size'', StringEntry (number_toString (fontSize (settings s)))),
               (''font_color'', StringEntry (color (settings s))),
               (''font_name_ja'', StringEntry (fontFamilyJa (settings s))),
               (''font_name_en'', StringEntry (fontFamilyEn (settings s))),
               (''outline_color'', StringEntry (outlineColor (settings s))),
               (''outline_size'', StringEntry (number_toString (outlineSize (settings s)))),
               (''bottom_margin'', StringEntry (number_toString (bottomMargin (settings s)))),
               (''enable_fade'', StringEntry (if enableFade (settings s) then ''true'' else ''false''))]]"
    unfolding handleVideoGenerate_sent [OF assms(1)] build_formData_parts
    using tail assms(2,3) by (simp add: backendURL_def file_or_null_def boolean_toString_def)
next
  assume "n < 10 ^ 21 \<and> fontSize (settings s) = Finite (of_nat n)"
  then have "fontSize (settings s) = Finite (of_nat n)" by simp
  then show "map_of (build_formData s) ''font_size'' = Some (StringEntry (show_nat n))"
    unfolding build_formData_parts by (simp add: number_toString_of_nat del: number_toString.simps)
next
  assume d: "settings s = settings initialState"
  show "map_of (build_formData s) ''font_size'' = Some (StringEntry ''32'')"
    unfolding build_formData_parts d by (simp add: initialState_def toString_eval)
  show "map_of (build_formData s) ''font_name_ja'' = Some (StringEntry ''Noto Sans JP'')"
    unfolding build_formData_parts d by (simp add: initialState_def)
  show "map_of (build_formData s) ''enable_fade'' = Some (StringEntry ''true'')"
    unfolding build_formData_parts d by (simp add: initialState_def boolean_toString_def)
qed

theorem render_request_parts_witness:
  "filter is_fetch (handleVideoGenerate demo_state (Rejected NotAnError)) =
           [Fetch ''POST'' ''http://localhost:8000/create_video''
              [(''music_file'', FileEntry demo_audio),
               (''image_file'', FileEntry demo_image),
               (''lyrics'', StringEntry (''line1'' @ [CHR 0x0A] @ ''line2'')),
               (''font_size'', StringEntry ''32''),
               (''font_color'', StringEntry ''#ffffff''),
               (''font_name_ja'', StringEntry ''Noto Sans JP''),
               (''font_name_en'', StringEntry ''Roboto''),
               (''outline_color'', StringEntry ''#000000''),
               (''outline_size'', StringEntry ''0''),
               (''bottom_margin'', StringEntry ''50''),
               (''enable_fade'', StringEntry ''true'')]]"
proof -
  have e: "submit_eligible demo_state"
    by (simp add: submit_eligible_def demo_state_def initialState_def)
  have a: "audioFile demo_state = Some demo_audio" by (simp add: demo_state_def)
  have b: "backgroundImage demo_state = Some demo_image" by (simp add: demo_state_def)
  show ?thesis
    using render_request_parts [OF e a b, where r = "Rejected NotAnError" and n = 32]
    by (simp add: demo_state_def initialState_def toString_eval)
qed

text \<open>
  C2. The submit-eligibility predicate of the specification holds when the audio file is
  present, the background image is present and the lyrics are not the empty string, and
  in none of the seven other cases. The submit button is disabled exactly when it is
  false, the handler stops at its guard exactly when it is false, and the handler sends
  a request exactly when it is true.
\<close>

theorem submit_eligibility:
  "button_disabled s = (\<not> submit_eligible s) \<and>
   (handleVideoGenerate s r = [Alert msg_missing]) = (\<not> submit_eligible s) \<and>
   (filter is_fetch (handleVideoGenerate s r) = []) = (\<not> submit_eligible s) \<and>
   submit_eligible s = (\<exists>a b c cs. audioFile s = Some a \<and> backgroundImage s = Some b \<and> lyrics s = c # cs)"
proof (intro conjI)
  show "button_disabled s = (\<not> submit_eligible s)"
    unfolding button_disabled_def by (rule guard_eligible)
  show "(handleVideoGenerate s r = [Alert msg_missing]) = (\<not> submit_eligible s)"
    by (cases "submit_eligible s") (simp_all add: handleVideoGenerate_blocked handleVideoGenerate_sent)
  show "(filter is_fetch (handleVideoGenerate s r) = []) = (\<not> submit_eligible s)"
    by (cases "submit_eligible s") (simp_all add: handleVideoGenerate_blocked handleVideoGenerate_sent)
  show "submit_eligible s = (\<exists>a b c cs. audioFile s = Some a \<and> backgroundImage s = Some b \<and> lyrics s = c # cs)"
    by (auto simp: submit_eligible_def neq_Nil_conv)
qed

theorem submit_eligibility_witness:
  "button_disabled initialState \<and> \<not> button_disabled demo_state \<and>
   button_disabled (demo_state\<lparr>audioFile := None\<rparr>) \<and>
   button_disabled (demo_state\<lparr>backgroundImage := None\<rparr>) \<and>
   button_disabled (demo_state\<lparr>lyrics := ''''\<rparr>) \<and>
   handleVideoGenerate (demo_state\<lparr>lyrics := ''''\<rparr>) (Rejected NotAnError) = [Alert msg_missing]"
  using submit_eligibility [of initialState "Rejected NotAnError"]
    submit_eligibility [of demo_state "Rejected NotAnError"]
    submit_eligibility [of "demo_state\<lparr>audioFile := None\<rparr>" "Rejected NotAnError"]
    submit_eligibility [of "demo_state\<lparr>backgroundImage := None\<rparr>" "Rejected NotAnError"]
    submit_eligibility [of "demo_state\<lparr>lyrics := ''''\<rparr>" "Rejected NotAnError"]
  by (simp add: submit_eligible_def demo_state_def initialState_def)

text \<open>
  C3. After any sequence of \<open>updateSettings\<close> patches, every field of the settings holds
  the value of the last patch that names it, and its value before the sequence when no
  patch names it; the initial defaults play no part. The empty patch leaves the store
  as it is.
\<close>

theorem updateSettings_merge:
  "settings (store_after s (concat (map updateSettings ps))) =
     \<lparr> fontFamilyJa = (case last_named p_fontFamilyJa ps of None \<Rightarrow> fontFamilyJa (settings s) | Some v \<Rightarrow> v),
       fontFamilyEn = (case last_named p_fontFamilyEn ps of None \<Rightarrow> fontFamilyEn (settings s) | Some v \<Rightarrow> v),
       fontSize = (case last_named p_fontSize ps of None \<Rightarrow> fontSize (settings s) | Some v \<Rightarrow> v),
       color = (case last_named p_color ps of None \<Rightarrow> color (settings s) | Some v \<Rightarrow> v),
       outlineColor = (case last_named p_outlineColor ps of None \<Rightarrow> outlineColor (settings s) | Some v \<Rightarrow> v),
       outlineSize = (case last_named p_outlineSize ps of None \<Rightarrow> outlineSize (settings s) | Some v \<Rightarrow> v),
       bottomMargin = (case last_named p_bottomMargin ps of None \<Rightarrow> bottomMargin (settings s) | Some v \<Rightarrow> v),
       enableFade = (case last_named p_enableFade ps of None \<Rightarrow> enableFade (settings s) | Some v \<Rightarrow> v) \<rparr>
   \<and> store_after s (updateSettings empty_patch) = s"
proof
  let ?t = "settings (foldl (\<lambda>st p. reducer st (UPDATE_SETTINGS p)) s ps)"
  have "?t = \<lparr> fontFamilyJa = fontFamilyJa ?t, fontFamilyEn = fontFamilyEn ?t,
               fontSize = fontSize ?t, color = color ?t, outlineColor = outlineColor ?t,
               outlineSize = outlineSize ?t, bottomMargin = bottomMargin ?t,
               enableFade = enableFade ?t \<rparr>"
    by simp
  then show "settings (store_after s (concat (map updateSettings ps))) =
     \<lparr> fontFamilyJa = (case last_named p_fontFamilyJa ps of None \<Rightarrow> fontFamilyJa (settings s) | Some v \<Rightarrow> v),
       fontFamilyEn = (case last_named p_fontFamilyEn ps of None \<Rightarrow> fontFamilyEn (settings s) | Some v \<Rightarrow> v),
       fontSize = (case last_named p_fontSize ps of None \<Rightarrow> fontSize (settings s) | Some v \<Rightarrow> v),
       color = (case last_named p_color ps of None \<Rightarrow> color (settings s) | Some v \<Rightarrow> v),
       outlineColor = (case last_named p_outlineColor ps of None \<Rightarrow> outlineColor (settings s) | Some v \<Rightarrow> v),
       outlineSize = (case last_named p_outlineSize ps of None \<Rightarrow> outlineSize (settings s) | Some v \<Rightarrow> v),
       bottomMargin = (case last_named p_bottomMargin ps of None \<Rightarrow> bottomMargin (settings s) | Some v \<Rightarrow> v),
       enableFade = (case last_named p_enableFade ps of None \<Rightarrow> enableFade (settings s) | Some v \<Rightarrow> v) \<rparr>"
    unfolding store_after_updateSettings merged_keys spread_key_def .
  show "store_after s (updateSettings empty_patch) = s"
    by (rule empty_patch_identity)
qed

theorem updateSettings_merge_witness:
  "settings (store_after demo_state
      (concat (map updateSettings
         [patch_size 40, empty_patch\<lparr>p_color := Some ''#ff0000''\<rparr>, patch_size 48, empty_patch]))) =
     (settings initialState)\<lparr>fontSize := Finite 48, color := ''#ff0000''\<rparr>"
  using updateSettings_merge [of demo_state
     "[patch_size 40, empty_patch\<lparr>p_color := Some ''#ff0000''\<rparr>, patch_size 48, empty_patch]"]
  by (simp add: patch_size_def empty_patch_def demo_state_def initialState_def)

text \<open>
  C4. When the submit-eligibility predicate is false, the handler only shows the
  validation message: it builds no form and calls \<open>fetch\<close> not at all, whatever the
  backend would have answered.
\<close>

theorem validation_blocks_request:
  assumes "\<not> submit_eligible s"
  shows "handleVideoGenerate s r = [Alert msg_missing] \<and>
         filter is_fetch (handleVideoGenerate s r) = []"
  using assms by (simp add: handleVideoGenerate_blocked)

theorem validation_blocks_request_witness:
  "handleVideoGenerate (demo_state\<lparr>backgroundImage := None\<rparr>)
      (Resolved \<lparr> status = 200, body = ''ok'', mime_type = ''video/mp4'' \<rparr>) = [Alert msg_missing]"
  using validation_blocks_request [of "demo_state\<lparr>backgroundImage := None\<rparr>"
      "Resolved \<lparr> status = 200, body = ''ok'', mime_type = ''video/mp4'' \<rparr>"]
  by (simp add: submit_eligible_def demo_state_def)

text \<open>
  C5. When the backend answers with a status outside 200-299, the handler throws an
  \<open>Error\<close> whose message holds the status in decimal and the text of the body; the
  \<open>catch\<close> block logs it and shows it in an alert, and no step of the download happens.
  A 500 with the body \<open>render failed\<close> gives a message ending in \<open>500 render failed\<close>.
\<close>

theorem request_error_surfaced:
  assumes "submit_eligible s" and "\<not> ok response"
  shows "handleVideoGenerate s (Resolved response) =
           [Fetch ''POST'' (backendURL @ ''/create_video'') (build_formData s),
            ConsoleError msg_console
              (Error (msg_failed @ show_nat (status response) @ '' '' @ body response)),
            Alert (msg_error @ msg_failed @ show_nat (status response) @ '' '' @ body response)]
         \<and> filter is_download (handleVideoGenerate s (Resolved response)) = []
         \<and> (status response = 500 \<and> body response = ''render failed'' \<longrightarrow>
              Alert (msg_error @ msg_failed @ ''500 render failed'')
                \<in> set (handleVideoGenerate s (Resolved response)))"
proof -
  have run: "handleVideoGenerate s (Resolved response) =
           [Fetch ''POST'' (backendURL @ ''/create_video'') (build_formData s),
            ConsoleError msg_console
              (Error (msg_failed @ show_nat (status response) @ '' '' @ body response)),
            Alert (msg_error @ msg_failed @ show_nat (status response) @ '' '' @ body response)]"
    unfolding handleVideoGenerate_sent [OF assms(1)] number_toString_of_nat
    using assms(2) by (simp add: catch_block_def response_text_def)
  have five: "show_nat 500 = ''500''"
    by (simp add: show_nat.simps digit_char_def)
  show ?thesis
    unfolding run using five by simp
qed

theorem request_error_surfaced_witness:
  "handleVideoGenerate demo_state (Resolved failed_response) =
     [Fetch ''POST'' ''http://localhost:8000/create_video'' (build_formData demo_state),
      ConsoleError msg_console (Error (msg_failed @ ''500 render failed'')),
      Alert (msg_error @ msg_failed @ ''500 render failed'')]"
proof -
  have e: "submit_eligible demo_state"
    by (simp add: submit_eligible_def demo_state_def initialState_def)
  have n: "\<not> ok failed_response"
    by (simp add: ok_def failed_response_def)
  show ?thesis
    using request_error_surfaced [OF e n]
    by (simp add: failed_response_def backendURL_def show_nat.simps digit_char_def)
qed

text \<open>
  C6. When the backend answers with a status in 200-299, the body is offered for download
  under the fixed name \<open>lyrics_video.mp4\<close> whatever its type is. When the type of the
  blob, which is the declared type as the browser reads it, is other than \<open>video/mp4\<close>
  (so whenever it is not a video type), a console warning naming it comes before the
  download and nothing else changes; no alert is shown.
\<close>

theorem payload_accepted_any_type:
  assumes "submit_eligible s" and "ok response"
  shows "handleVideoGenerate s (Resolved response) =
           Fetch ''POST'' (backendURL @ ''/create_video'') (build_formData s) #
           (if mime_type response = ''video/mp4'' then []
            else [ConsoleWarn (''Expected video/mp4 but received '' @ mime_type response)]) @
           [CreateObjectURL (response_blob response),
            AppendAnchor (response_blob response) ''lyrics_video.mp4'',
            ClickAnchor (response_blob response) ''lyrics_video.mp4'',
            RevokeObjectURL (response_blob response),
            RemoveAnchor (response_blob response) ''lyrics_video.mp4'']
         \<and> (take 6 (mime_type response) \<noteq> ''video/'' \<longrightarrow>
              ConsoleWarn (''Expected video/mp4 but received '' @ mime_type response)
                \<in> set (handleVideoGenerate s (Resolved response)))
         \<and> ClickAnchor \<lparr> blob_type = mime_type response, blob_data = body response \<rparr>
              ''lyrics_video.mp4'' \<in> set (handleVideoGenerate s (Resolved response))
         \<and> (\<forall>m. Alert m \<notin> set (handleVideoGenerate s (Resolved response)))"
proof -
  have run: "handleVideoGenerate s (Resolved response) =
           Fetch ''POST'' (backendURL @ ''/create_video'') (build_formData s) #
           (if mime_type response = ''video/mp4'' then []
            else [ConsoleWarn (''Expected video/mp4 but received '' @ mime_type response)]) @
           [CreateObjectURL (response_blob response),
            AppendAnchor (response_blob response) ''lyrics_video.mp4'',
            ClickAnchor (response_blob response) ''lyrics_video.mp4'',
            RevokeObjectURL (response_blob response),
            RemoveAnchor (response_blob response) ''lyrics_video.mp4'']"
    unfolding handleVideoGenerate_sent [OF assms(1)]
    using assms(2) by (simp add: download_blob_def response_blob_def)
  have novideo: "take 6 (mime_type response) \<noteq> ''video/'' \<Longrightarrow>
                 mime_type response \<noteq> ''video/mp4''"
    by auto
  show ?thesis
    unfolding run using novideo by (auto simp: response_blob_def)
qed

theorem payload_accepted_any_type_witness:
  "handleVideoGenerate demo_state (Resolved odd_response) =
     [Fetch ''POST'' ''http://localhost:8000/create_video'' (build_formData demo_state),
      ConsoleWarn ''Expected video/mp4 but received application/octet-stream'',
      CreateObjectURL (response_blob odd_response),
      AppendAnchor (response_blob odd_response) ''lyrics_video.mp4'',
      ClickAnchor (response_blob odd_response) ''lyrics_video.mp4'',
      RevokeObjectURL (response_blob odd_response),
      RemoveAnchor (response_blob odd_response) ''lyrics_video.mp4''] \<and>
   handleVideoGenerate demo_state (Resolved video_response) =
     [Fetch ''POST'' ''http://localhost:8000/create_video'' (build_formData demo_state),
      CreateObjectURL (response_blob video_response),
      AppendAnchor (response_blob video_response) ''lyrics_video.mp4'',
      ClickAnchor (response_blob video_response) ''lyrics_video.mp4'',
      RevokeObjectURL (response_blob video_response),
      RemoveAnchor (response_blob video_response) ''lyrics_video.mp4'']"
proof -
  have e: "submit_eligible demo_state"
    by (simp add: submit_eligible_def demo_state_def initialState_def)
  have k: "ok odd_response"
    by (simp add: ok_def odd_response_def)
  have v: "ok video_response"
    by (simp add: ok_def video_response_def)
  have odd: "handleVideoGenerate demo_state (Resolved odd_response) =
     [Fetch ''POST'' ''http://localhost:8000/create_video'' (build_formData demo_state),
      ConsoleWarn ''Expected video/mp4 but received application/octet-stream'',
      CreateObjectURL (response_blob odd_response),
      AppendAnchor (response_blob odd_response) ''lyrics_video.mp4'',
      ClickAnchor (response_blob odd_response) ''lyrics_video.mp4'',
      RevokeObjectURL (response_blob odd_response),
      RemoveAnchor (response_blob odd_response) ''lyrics_video.mp4'']"
    using payload_accepted_any_type [OF e k]
    by (simp add: odd_response_def backendURL_def)
  have video: "handleVideoGenerate demo_state (Resolved video_response) =
     [Fetch ''POST'' ''http://localhost:8000/create_video'' (build_formData demo_state),
      CreateObjectURL (response_blob video_response),
      AppendAnchor (response_blob video_response) ''lyrics_video.mp4'',
      ClickAnchor (response_blob video_response) ''lyrics_video.mp4'',
      RevokeObjectURL (response_blob video_response),
      RemoveAnchor (response_blob video_response) ''lyrics_video.mp4'']"
    using payload_accepted_any_type [OF e v]
    by (simp add: video_response_def backendURL_def)
  from odd video show ?thesis by blast
qed

text \<open>
  C10. The submit handler dispatches nothing: after its effects the store is the one it
  started from, with the same audio file, background image, lyrics and settings, whether
  the request succeeds, is answered with an error status, or is rejected by the network,
  and also when the guard stops it.
\<close>

theorem submit_leaves_store:
  "store_after s (handleVideoGenerate s r) = s \<and>
   store_after s (handleVideoGenerate s (Rejected err)) = s \<and>
   store_after s (handleVideoGenerate s (Resolved response)) = s \<and>
   audioFile (store_after s (handleVideoGenerate s r)) = audioFile s \<and>
   backgroundImage (store_after s (handleVideoGenerate s r)) = backgroundImage s \<and>
   lyrics (store_after s (handleVideoGenerate s r)) = lyrics s \<and>
   settings (store_after s (handleVideoGenerate s r)) = settings s"
  by (simp add: store_after_no_dispatch [OF handleVideoGenerate_no_dispatch])

theorem submit_leaves_store_witness:
  "store_after demo_state (handleVideoGenerate demo_state (Resolved video_response)) = demo_state \<and>
   store_after demo_state (handleVideoGenerate demo_state (Resolved failed_response)) = demo_state \<and>
   store_after demo_state (handleVideoGenerate demo_state (Rejected (Error ''Failed to fetch''))) = demo_state \<and>
   store_after initialState (handleVideoGenerate initialState (Rejected NotAnError)) = initialState"
  using submit_leaves_store [of demo_state "Resolved video_response"]
    submit_leaves_store [of demo_state "Resolved failed_response"]
    submit_leaves_store [of demo_state "Rejected (Error ''Failed to fetch'')"]
    submit_leaves_store [of initialState "Rejected NotAnError"]
  by simp

text \<open>
  C7. The style of the secondary (Latin) subtitle takes its font size from
  \<open>settings.fontSize / 2\<close> and from nothing else: for a font size between 16 and 72 it
  is exactly the half, a whole number of pixels for an even size and one ending in
  \<open>.5\<close> for an odd one, and two settings with the same font size give the same
  secondary size. The bottom margin of the settings is the \<open>marginBottom\<close> of the
  secondary line; the primary (Japanese) line has \<open>marginBottom\<close> 0 and the full font
  size.
\<close>

theorem secondary_subtitle_half:
  "englishSubtitleStyle st ''fontSize'' =
     Some (CssString (number_toString (num_div (fontSize st) (Finite 2)) @ ''px''))
   \<and> (16 \<le> q \<and> q \<le> 72 \<and> fontSize st = Finite q \<longrightarrow>
          englishSubtitleStyle st ''fontSize'' =
            Some (CssString (number_toString (Finite (q / 2)) @ ''px'')))
   \<and> (16 \<le> n \<and> n \<le> 72 \<and> fontSize st = Finite (of_nat n) \<longrightarrow>
          englishSubtitleStyle st ''fontSize'' =
            Some (CssString ((if even n then show_nat (n div 2) else show_nat (n div 2) @ ''.5'')
                             @ ''px'')))
   \<and> (fontSize st = fontSize st' \<longrightarrow>
          englishSubtitleStyle st ''fontSize'' = englishSubtitleStyle st' ''fontSize'')
   \<and> englishSubtitleStyle st ''marginBottom'' =
        Some (CssString (number_toString (bottomMargin st) @ ''px''))
   \<and> subtitleStyle st ''marginBottom'' = Some (CssNumber (Finite 0))
   \<and> subtitleStyle st ''fontSize'' = Some (CssString (number_toString (fontSize st) @ ''px''))"
proof (intro conjI impI)
  assume "16 \<le> n \<and> n \<le> 72 \<and> fontSize st = Finite (of_nat n)"
  then have "fontSize st = Finite (of_nat n)" by simp
  then show "englishSubtitleStyle st ''fontSize'' =
            Some (CssString ((if even n then show_nat (n div 2) else show_nat (n div 2) @ ''.5'')
                             @ ''px''))"
    unfolding englishSubtitleStyle_fontSize by (simp only: number_toString_half)
next
  assume "16 \<le> q \<and> q \<le> 72 \<and> fontSize st = Finite q"
  then show "englishSubtitleStyle st ''fontSize'' =
            Some (CssString (number_toString (Finite (q / 2)) @ ''px''))"
    unfolding englishSubtitleStyle_fontSize by simp
next
  assume "fontSize st = fontSize st'"
  then show "englishSubtitleStyle st ''fontSize'' = englishSubtitleStyle st' ''fontSize''"
    unfolding englishSubtitleStyle_fontSize by simp
qed (rule englishSubtitleStyle_fontSize englishSubtitleStyle_marginBottom
       subtitleStyle_marginBottom subtitleStyle_fontSize)+

theorem secondary_subtitle_half_witness:
  "englishSubtitleStyle odd_settings ''fontSize'' = Some (CssString ''16.5px'') \<and>
   englishSubtitleStyle odd_settings ''fontSize'' =
     englishSubtitleStyle (odd_settings\<lparr>bottomMargin := Finite 0\<rparr>) ''fontSize'' \<and>
   englishSubtitleStyle odd_settings ''marginBottom'' = Some (CssString ''50px'') \<and>
   subtitleStyle odd_settings ''marginBottom'' = Some (CssNumber (Finite 0)) \<and>
   subtitleStyle odd_settings ''fontSize'' = Some (CssString ''33px'')"
proof -
  note half = secondary_subtitle_half
      [where st = odd_settings and n = 33 and q = 33
         and st' = "odd_settings\<lparr>bottomMargin := Finite 0\<rparr>"]
  have size: "(16::nat) \<le> 33 \<and> (33::nat) \<le> 72 \<and> fontSize odd_settings = Finite (of_nat 33)"
    by (simp add: odd_settings_def)
  have same: "fontSize odd_settings = fontSize (odd_settings\<lparr>bottomMargin := Finite 0\<rparr>)"
    by simp
  have margin: "number_toString (bottomMargin odd_settings) = ''50''"
    by (simp add: odd_settings_def initialState_def toString_eval)
  have primary: "number_toString (fontSize odd_settings) = ''33''"
    by (simp add: odd_settings_def toString_eval)
  have digits: "(if even (33::nat) then show_nat (33 div 2) else show_nat (33 div 2) @ ''.5'')
                  = ''16.5''"
    by (simp add: show_nat.simps digit_char_def)
  from half size have "englishSubtitleStyle odd_settings ''fontSize'' =
      Some (CssString ((if even (33::nat) then show_nat (33 div 2)
                        else show_nat (33 div 2) @ ''.5'') @ ''px''))"
    by blast
  then have a: "englishSubtitleStyle odd_settings ''fontSize'' = Some (CssString ''16.5px'')"
    by (simp only: digits) simp
  from half same have b: "englishSubtitleStyle odd_settings ''fontSize'' =
     englishSubtitleStyle (odd_settings\<lparr>bottomMargin := Finite 0\<rparr>) ''fontSize''"
    by blast
  from half have "englishSubtitleStyle odd_settings ''marginBottom'' =
      Some (CssString (number_toString (bottomMargin odd_settings) @ ''px''))"
    by blast
  then have c: "englishSubtitleStyle odd_settings ''marginBottom'' = Some (CssString ''50px'')"
    by (simp only: margin) simp
  from half have d: "subtitleStyle odd_settings ''marginBottom'' = Some (CssNumber (Finite 0))"
    by blast
  from half have "subtitleStyle odd_settings ''fontSize'' =
      Some (CssString (number_toString (fontSize odd_settings) @ ''px''))"
    by blast
  then have e: "subtitleStyle odd_settings ''fontSize'' = Some (CssString ''33px'')"
    by (simp only: primary) simp
  from a b c d e show ?thesis by blast
qed

text \<open>
  C8, as amended. A preview starts with the aspect ratio exactly 16/9, and only two
  events write it. Clearing a background that was set writes exactly 16/9. The completion
  of an image's decode writes that image's pixel width divided by its pixel height, which
  for 1920 by 1080 is 16/9, whether or not that image is still the background. Every
  other event leaves the ratio as it is, setting or replacing the background image
  included, so in every run the ratio is the value of the last write, or 16/9 when
  nothing has written it. Hence, with no background image set the ratio is 16/9 as long
  as no decode has completed since the background was cleared, and with a background
  image set the ratio is its width over its height as long as the completion of its
  decode is the last write.
\<close>

theorem aspect_ratio_last_write:
  "(quiet dims (mount bg) events \<longrightarrow>
      aspectRatio (run dims (mount bg) events) = Finite (16 / 9))
   \<and> (backgroundImage_prop s \<noteq> None \<and> quiet dims (step dims s (Render None)) post \<longrightarrow>
        aspectRatio (run dims (step dims s (Render None)) post) = Finite (16 / 9))
   \<and> (map_of (loading s) u = Some f \<and> quiet dims (step dims s (ImageLoaded u)) post \<longrightarrow>
        aspectRatio (run dims (step dims s (ImageLoaded u)) post) =
          num_div (Finite (of_nat (fst (dims f)))) (Finite (of_nat (snd (dims f)))))
   \<and> (dims f = (1920, 1080) \<longrightarrow>
        num_div (Finite (of_nat (fst (dims f)))) (Finite (of_nat (snd (dims f))))
          = Finite (16 / 9))
   \<and> aspectRatio (step dims s (Render (Some g))) = aspectRatio s
   \<and> (quiet dims (mount bg) events \<or>
        (\<exists>pre e rest. events = pre @ e # rest \<and> writes (run dims (mount bg) pre) e \<and>
            quiet dims (step dims (run dims (mount bg) pre) e) rest))"
proof (intro conjI impI)
  assume "quiet dims (mount bg) events"
  then have "aspectRatio (run dims (mount bg) events) = aspectRatio (mount bg)"
    by (rule quiet_keeps_ratio)
  then show "aspectRatio (run dims (mount bg) events) = Finite (16 / 9)"
    by (simp only: mount_ratio)
next
  assume "backgroundImage_prop s \<noteq> None \<and> quiet dims (step dims s (Render None)) post"
  then have p: "backgroundImage_prop s \<noteq> None"
    and q: "quiet dims (step dims s (Render None)) post"
    by blast+
  have "aspectRatio (run dims (step dims s (Render None)) post) =
               aspectRatio (step dims s (Render None))"
    using q by (rule quiet_keeps_ratio)
  also have "\<dots> = Finite (16 / 9)"
    using p by (rule step_clear_ratio)
  finally show "aspectRatio (run dims (step dims s (Render None)) post) = Finite (16 / 9)" .
next
  assume "map_of (loading s) u = Some f \<and> quiet dims (step dims s (ImageLoaded u)) post"
  then have p: "map_of (loading s) u = Some f"
    and q: "quiet dims (step dims s (ImageLoaded u)) post"
    by blast+
  have "aspectRatio (run dims (step dims s (ImageLoaded u)) post) =
               aspectRatio (step dims s (ImageLoaded u))"
    using q by (rule quiet_keeps_ratio)
  also have "\<dots> = num_div (Finite (of_nat (fst (dims f)))) (Finite (of_nat (snd (dims f))))"
    using p by (rule step_loaded_ratio)
  finally show "aspectRatio (run dims (step dims s (ImageLoaded u)) post) =
          num_div (Finite (of_nat (fst (dims f)))) (Finite (of_nat (snd (dims f))))" .
next
  assume "dims f = (1920, 1080)"
  then show "num_div (Finite (of_nat (fst (dims f)))) (Finite (of_nat (snd (dims f))))
               = Finite (16 / 9)"
    by simp
next
  show "aspectRatio (step dims s (Render (Some g))) = aspectRatio s"
    by (rule step_set_ratio)
next
  show "quiet dims (mount bg) events \<or>
        (\<exists>pre e rest. events = pre @ e # rest \<and> writes (run dims (mount bg) pre) e \<and>
            quiet dims (step dims (run dims (mount bg) pre) e) rest)"
    by (rule last_write_exists)
qed

theorem aspect_ratio_last_write_witness:
  "aspectRatio
     (run demo_dims
        (step demo_dims
           (run demo_dims (mount None) [Render (Some demo_hd), Render (Some demo_wide), ImageLoaded 0])
           (ImageLoaded 1))
        [Render (Some demo_hd)]) = Finite 2 \<and>
   aspectRatio
     (run demo_dims
        (step demo_dims
           (run demo_dims (mount None) [Render (Some demo_wide), ImageLoaded 0])
           (Render None))
        [Render (Some demo_wide)]) = Finite (16 / 9) \<and>
   aspectRatio (run demo_dims (mount None) [Render (Some demo_wide)]) = Finite (16 / 9) \<and>
   aspectRatio (run demo_dims (mount None) [Render (Some demo_wide), ImageLoaded 0]) = Finite 2"
proof -
  let ?late = "run demo_dims (mount None)
                 [Render (Some demo_hd), Render (Some demo_wide), ImageLoaded 0]"
  let ?wide = "run demo_dims (mount None) [Render (Some demo_wide), ImageLoaded 0]"
  let ?set = "run demo_dims (mount None) [Render (Some demo_wide)]"
  note unfold = run_def mount_def run_effect_def run_cleanup_def initial_preview_def
    demo_wide_def demo_hd_def
  have h1: "map_of (loading ?late) 1 = Some demo_wide \<and>
            quiet demo_dims (step demo_dims ?late (ImageLoaded 1)) [Render (Some demo_hd)]"
    by (simp add: unfold)
  have r1: "num_div (Finite (of_nat (fst (demo_dims demo_wide))))
              (Finite (of_nat (snd (demo_dims demo_wide)))) = Finite 2"
    by (simp add: demo_dims_def demo_wide_def)
  have h2: "backgroundImage_prop ?wide \<noteq> None \<and>
            quiet demo_dims (step demo_dims ?wide (Render None)) [Render (Some demo_wide)]"
    by (simp add: unfold)
  have h3: "quiet demo_dims (mount None) [Render (Some demo_wide)]"
    by (simp add: unfold)
  have h4: "map_of (loading ?set) 0 = Some demo_wide \<and>
            quiet demo_dims (step demo_dims ?set (ImageLoaded 0)) []"
    by (simp add: unfold)
  have e4: "run demo_dims (step demo_dims ?set (ImageLoaded 0)) [] = ?wide"
    by (simp add: run_def)
  from aspect_ratio_last_write
         [where dims = demo_dims and s = ?late and u = 1 and f = demo_wide
            and post = "[Render (Some demo_hd)]"] h1
  have "aspectRatio (run demo_dims (step demo_dims ?late (ImageLoaded 1)) [Render (Some demo_hd)]) =
          num_div (Finite (of_nat (fst (demo_dims demo_wide))))
            (Finite (of_nat (snd (demo_dims demo_wide))))"
    by blast
  then have a: "aspectRatio
      (run demo_dims (step demo_dims ?late (ImageLoaded 1)) [Render (Some demo_hd)]) = Finite 2"
    by (simp only: r1)
  from aspect_ratio_last_write
         [where dims = demo_dims and s = ?wide and post = "[Render (Some demo_wide)]"] h2
  have b: "aspectRatio
      (run demo_dims (step demo_dims ?wide (Render None)) [Render (Some demo_wide)]) = Finite (16 / 9)"
    by blast
  from aspect_ratio_last_write
         [where dims = demo_dims and bg = None and events = "[Render (Some demo_wide)]"] h3
  have c: "aspectRatio ?set = Finite (16 / 9)"
    by blast
  from aspect_ratio_last_write
         [where dims = demo_dims and s = ?set and u = 0 and f = demo_wide and post = "[]"] h4
  have "aspectRatio (run demo_dims (step demo_dims ?set (ImageLoaded 0)) []) =
          num_div (Finite (of_nat (fst (demo_dims demo_wide))))
            (Finite (of_nat (snd (demo_dims demo_wide))))"
    by blast
  then have d: "aspectRatio ?wide = Finite 2"
    by (simp only: r1 e4)
  from a b c d show ?thesis by blast
qed

text \<open>
  The claim as stated fails. An image of 1000 by 500 pixels is set and cleared before it
  has loaded; when it loads, the preview has no background image and the ratio 2. And
  while the image is set but has not loaded yet, the ratio is still 16/9, not 2.
\<close>

theorem aspect_ratio_counterexample:
  "backgroundImage_prop
     (run demo_dims (mount None) [Render (Some demo_wide), Render None, ImageLoaded 0]) = None \<and>
   aspectRatio
     (run demo_dims (mount None) [Render (Some demo_wide), Render None, ImageLoaded 0]) = Finite 2 \<and>
   Finite 2 \<noteq> Finite (16 / 9) \<and>
   backgroundImage_prop (run demo_dims (mount None) [Render (Some demo_wide)]) = Some demo_wide \<and>
   demo_dims demo_wide = (1000, 500) \<and>
   aspectRatio (run demo_dims (mount None) [Render (Some demo_wide)]) = Finite (16 / 9)"
  by (simp add: run_def mount_def run_effect_def run_cleanup_def initial_preview_def
        demo_dims_def demo_wide_def)




end
